theory Spec2Isabelle
  imports Main
begin

section \<open>Python values and the callables the notebooks define\<close>

text \<open>
  The notebooks are Python scripts, cell after cell, over the Ray framework. Python is
  dynamically typed, so every value a cell binds or displays is a \<open>pyval\<close>: an unbounded
  integer, a string, \<open>None\<close>, an object ref (the future that \<open>.remote()\<close> returns), an actor
  handle, a list, or an opaque object of another library (scikit-learn, numpy).
\<close>

datatype pyval =
    PInt int
  | PStr string
  | PNone
  | PRef nat
  | PActor nat
  | PList "pyval list"
  | PObj string

text \<open>
  A zero-argument Python function. Its argument is the raw draw that the random generator
  of the executing process hands out; its result is the name of the exception it raises
  (\<open>Inl\<close>) or the value it returns (\<open>Inr\<close>).
\<close>

type_synonym body = "nat \<Rightarrow> string + pyval"

text \<open>
  ex_remo_func, cells 3 and 5 (both definitions have the same body):
  \<^verbatim>\<open>
  def my_function ():
      return 42
  \<close>
\<close>

definition my_function :: body where
  "my_function r = Inr (PInt 42)"

text \<open>
  \<open>random.randint(a, b)\<close> of the Python standard library: an integer \<open>N\<close> with
  \<open>a <= N <= b\<close>, chosen by the generator (here: from the raw draw \<open>r\<close>); \<open>ValueError\<close>
  on an empty range.
\<close>

definition randint :: "int \<Rightarrow> int \<Rightarrow> nat \<Rightarrow> string + int" where
  "randint a b r =
     (if b < a then Inl ''ValueError''
      else Inr (a + int (r mod nat (b - a + 1))))"

text \<open>
  ex_remo_func, cell 8. \<open>time.sleep(2)\<close> only spends wall-clock time and has no part in the
  result, so it has no counterpart here.
  \<^verbatim>\<open>
  @ray.remote
  def slow_function():
    time.sleep(2)
    return random.randint(0, 9)
  \<close>
\<close>

definition slow_function :: body where
  "slow_function r =
     (case randint 0 9 r of Inl e \<Rightarrow> Inl e | Inr n \<Rightarrow> Inr (PInt n))"

text \<open>
  ex_remo_meth, cell 2:
  \<^verbatim>\<open>
  @ray.remote
  class Counter (object):
      def __init__ (self):
          self.value = 0

      def increment (self):
          self.value += 1
          return self.value
  \<close>
  The field \<open>self.value\<close> is \<open>self_value\<close>. A method takes the object and returns the value it
  returns together with the object as it leaves it.
\<close>

record Counter =
  self_value :: int

definition Counter_init :: Counter where
  "Counter_init = \<lparr>self_value = 0\<rparr>"

definition increment :: "Counter \<Rightarrow> pyval \<times> Counter" where
  "increment self =
     (let self' = self\<lparr>self_value := self_value self + 1\<rparr>
      in (PInt (self_value self'), self'))"

section \<open>The framework the notebooks call\<close>

text \<open>
  A remote computation ends in a value or in a failure: the worker process died, or the
  callable raised an exception. A failure reaches the caller when the handle is resolved.
\<close>

datatype failure = Worker_died | Task_raised string

datatype error =
    Remote_failure failure
  | Reinit_error
  | Not_connected
  | Object_lost nat
  | Name_error string
  | Type_error string
  | Attribute_error string
  | Python_exception string

text \<open>
  The calls a notebook makes into the framework, in the order it makes them. (A call the
  framework refuses for want of a connection, or a forbidden second \<open>ray.init\<close>, does
  nothing and is not logged.)
\<close>

datatype api_call =
    Ray_init bool
  | Ray_get_dashboard_url
  | Ray_remote string
  | Actor_create string nat
  | Submit string nat
  | Submit_method nat string nat
  | Resolve nat
  | Register_ray
  | Parallel_backend string
  | Ray_shutdown

text \<open>
  What the cluster and the other libraries decide and the notebook cannot: the raw random
  draw of the worker that runs the task behind a handle, whether that task fails in the
  framework, the raw draw of the notebook's own process, and for every call into
  scikit-learn, numpy or joblib (named by what is called) the lines it prints and the
  exception it raises, if any.
\<close>

record env =
  draws :: "nat \<Rightarrow> nat"
  fails :: "nat \<Rightarrow> failure option"
  local_draw :: nat
  printed :: "string \<Rightarrow> string list"
  raised :: "string \<Rightarrow> error option"

text \<open>
  The session: whether the notebook is connected to a cluster, the dashboard endpoint the
  cluster reports, the object store (handle to outcome), the actors with their state, the
  next unused handle and actor number, and the log of the calls made so far.
\<close>

record session =
  connected :: bool
  dashboard :: "string option"
  store :: "nat \<rightharpoonup> failure + pyval"
  next_ref :: nat
  actors :: "nat \<rightharpoonup> Counter"
  next_actor :: nat
  calls :: "api_call list"

definition no_session :: session where
  "no_session = \<lparr>connected = False, dashboard = None, store = Map.empty, next_ref = 0,
     actors = Map.empty, next_actor = 0, calls = []\<rparr>"

text \<open>A framework call: the session after it, and what it raised or returned.\<close>

type_synonym 'a ray_op = "session \<Rightarrow> (error + 'a) \<times> session"

definition logged :: "api_call \<Rightarrow> session \<Rightarrow> session" where
  "logged c s = s\<lparr>calls := calls s @ [c]\<rparr>"

text \<open>
  Modelled from the spec: \<open>ray.init\<close> is the framework's and is not under src/. Its branch
  for a session that is not connected follows section 2, session bootstrap: it connects
  to a (possibly local) cluster, which reports its dashboard endpoint (the one the
  recorded output of cell 1 shows).

  The branch for a session that is already connected is in neither the specification nor
  src/: the specification is silent on a second \<open>ray.init\<close>. It states the framework's own
  documentation of the keyword \<open>ignore_reinit_error\<close>, which every call site of the
  notebooks passes: a second \<open>ray.init\<close> is an error, and with the keyword true the error
  is suppressed and the running session is left as it is. No notebook reaches this
  branch in a run from a fresh kernel.
\<close>

definition ray_init :: "bool \<Rightarrow> unit ray_op" where
  "ray_init ignore_reinit_error s =
     (let s' = logged (Ray_init ignore_reinit_error) s in
      if connected s then
        (if ignore_reinit_error then (Inr (), s') else (Inl Reinit_error, s))
      else (Inr (), s'\<lparr>connected := True, dashboard := Some ''127.0.0.1:8265''\<rparr>))"

text \<open>Modelled from the spec: \<open>ray.get_dashboard_url\<close>, the diagnostic endpoint of section 2.\<close>

definition ray_get_dashboard_url :: "string ray_op" where
  "ray_get_dashboard_url s =
     (if \<not> connected s then (Inl Not_connected, s)
      else case dashboard s of
        None \<Rightarrow> (Inl Not_connected, s)
      | Some url \<Rightarrow> (Inr url, logged Ray_get_dashboard_url s))"

text \<open>
  Modelled from the spec: the decorator \<open>@ray.remote\<close> (section 2, task/actor definition)
  marks a function or class; it runs nothing.
\<close>

definition ray_remote :: "string \<Rightarrow> unit ray_op" where
  "ray_remote name s = (Inr (), logged (Ray_remote name) s)"

text \<open>
  Modelled from the spec: \<open>submit(callable, args) \<rightarrow> handle\<close> of section 4, the framework's
  \<open>f.remote()\<close>. It creates one new handle, records under it the outcome of the
  computation (what the cluster's worker produces: the failure the framework reports, or
  what the callable raises or returns there) and returns the handle, not the outcome.
\<close>

definition outcome :: "env \<Rightarrow> nat \<Rightarrow> string + pyval \<Rightarrow> failure + pyval" where
  "outcome e h r =
     (case fails e h of
        Some f \<Rightarrow> Inl f
      | None \<Rightarrow> (case r of Inl x \<Rightarrow> Inl (Task_raised x) | Inr v \<Rightarrow> Inr v))"

definition submit :: "env \<Rightarrow> string \<Rightarrow> body \<Rightarrow> pyval ray_op" where
  "submit e name f s =
     (if \<not> connected s then (Inl Not_connected, s)
      else
        let h = next_ref s
        in (Inr (PRef h),
            logged (Submit name h)
              (s\<lparr>store := (store s)(h \<mapsto> outcome e h (f (draws e h))),
                 next_ref := h + 1\<rparr>)))"

text \<open>
  Modelled from the spec: calling the marked class (section 2, invocation) creates an
  actor, here always a \<open>Counter\<close> (the one class the repository marks), and returns its handle.
\<close>

definition actor_create :: "string \<Rightarrow> pyval ray_op" where
  "actor_create name s =
     (if \<not> connected s then (Inl Not_connected, s)
      else
        let a = next_actor s
        in (Inr (PActor a),
            logged (Actor_create name a)
              (s\<lparr>actors := (actors s)(a \<mapsto> Counter_init), next_actor := a + 1\<rparr>)))"

text \<open>The methods of \<open>Counter\<close> that an actor can be sent.\<close>

definition Counter_method :: "string \<Rightarrow> (Counter \<Rightarrow> pyval \<times> Counter) option" where
  "Counter_method m = (if m = ''increment'' then Some increment else None)"

text \<open>
  Modelled from the spec: \<open>actor.method.remote()\<close> is a submit whose computation runs on
  the actor's state, one call after the other in the order of submission. A call that
  fails in the framework leaves the state as it was.
\<close>

definition actor_call :: "env \<Rightarrow> nat \<Rightarrow> string \<Rightarrow> pyval ray_op" where
  "actor_call e a m s =
     (if \<not> connected s then (Inl Not_connected, s)
      else case actors s a of
        None \<Rightarrow> (Inl (Object_lost a), s)
      | Some self \<Rightarrow>
          (case Counter_method m of
             None \<Rightarrow> (Inl (Attribute_error m), s)
           | Some meth \<Rightarrow>
               let h = next_ref s;
                   (v, self') = meth self;
                   s' = s\<lparr>store := (store s)(h \<mapsto> outcome e h (Inr v)),
                          next_ref := h + 1\<rparr>
               in (Inr (PRef h),
                   logged (Submit_method a m h)
                     (if fails e h = None then s'\<lparr>actors := (actors s)(a \<mapsto> self')\<rparr>
                      else s'))))"

text \<open>
  Modelled from the spec: \<open>resolve(handle | collection_of_handles)\<close> of section 4, the
  framework's \<open>ray.get\<close>: the value the computation produced, or its failure raised in the
  caller. (That the caller waits there is wall-clock behaviour and has no counterpart.)
\<close>

definition resolve_ref :: "nat \<Rightarrow> session \<Rightarrow> error + pyval" where
  "resolve_ref h s =
     (case store s h of
        None \<Rightarrow> Inl (Object_lost h)
      | Some (Inl f) \<Rightarrow> Inl (Remote_failure f)
      | Some (Inr v) \<Rightarrow> Inr v)"

fun resolve_refs :: "pyval list \<Rightarrow> pyval list ray_op" where
  "resolve_refs [] s = (Inr [], s)"
| "resolve_refs (PRef h # xs) s =
     (let s' = logged (Resolve h) s in
      case resolve_ref h s of
        Inl e \<Rightarrow> (Inl e, s')
      | Inr v \<Rightarrow>
          (case resolve_refs xs s' of
             (Inl e, s'') \<Rightarrow> (Inl e, s'')
           | (Inr vs, s'') \<Rightarrow> (Inr (v # vs), s'')))"
| "resolve_refs (x # xs) s = (Inl (Type_error ''ray.get''), s)"

definition ray_get :: "pyval \<Rightarrow> pyval ray_op" where
  "ray_get x s =
     (if \<not> connected s then (Inl Not_connected, s)
      else case x of
        PRef h \<Rightarrow> (resolve_ref h s, logged (Resolve h) s)
      | PList xs \<Rightarrow>
          (case resolve_refs xs s of
             (Inl e, s') \<Rightarrow> (Inl e, s')
           | (Inr vs, s') \<Rightarrow> (Inr (PList vs), s'))
      | _ \<Rightarrow> (Inl (Type_error ''ray.get''), s))"

text \<open>Modelled from the spec: \<open>ray.shutdown\<close>, the teardown of section 2, releases the connection.\<close>

definition ray_shutdown :: "unit ray_op" where
  "ray_shutdown s = (Inr (), logged Ray_shutdown (s\<lparr>connected := False, dashboard := None\<rparr>))"

text \<open>
  Modelled from the spec: \<open>register_ray\<close> (\<open>ray.util.joblib\<close>) makes the framework known to
  joblib as the backend named \<open>ray\<close>; it runs nothing.
\<close>

definition register_ray :: "unit ray_op" where
  "register_ray s = (Inr (), logged Register_ray s)"

section \<open>The notebook kernel\<close>

text \<open>
  What a cell shows: a line on standard output (\<open>print\<close>), the value of the cell's last
  expression (\<open>Out[n]\<close>), or a line of \<open>ic\<close> on standard error (\<open>ic| label: value\<close>).
\<close>

datatype display = Stdout string | Out pyval | Ic string pyval

text \<open>
  A name of the notebook is bound to a value, to a plain function (\<open>def\<close>), to a remote
  function (\<open>@ray.remote def\<close>) or to the remote class \<open>Counter\<close>.
\<close>

datatype binding =
    Value pyval
  | Function body
  | Remote_function body
  | Actor_class

record kernel =
  ray :: session
  globals :: "string \<rightharpoonup> binding"
  out :: "display list"

definition fresh_kernel :: kernel where
  "fresh_kernel = \<lparr>ray = no_session, globals = Map.empty, out = []\<rparr>"

text \<open>
  A statement or expression runs on the kernel and raises or returns; what it did before
  raising stays done. \<open>bindP\<close> is sequencing: an exception ends the run of the cell.
\<close>

type_synonym 'a py = "kernel \<Rightarrow> (error + 'a) \<times> kernel"

definition returnP :: "'a \<Rightarrow> 'a py" where
  "returnP x k = (Inr x, k)"

definition raiseP :: "error \<Rightarrow> 'a py" where
  "raiseP e k = (Inl e, k)"

definition bindP :: "'a py \<Rightarrow> ('a \<Rightarrow> 'b py) \<Rightarrow> 'b py" where
  "bindP m f k = (case m k of (Inl e, k') \<Rightarrow> (Inl e, k') | (Inr x, k') \<Rightarrow> f x k')"

definition thenP :: "unit py \<Rightarrow> 'b py \<Rightarrow> 'b py" where
  "thenP m n = bindP m (\<lambda>_. n)"

definition framework :: "'a ray_op \<Rightarrow> 'a py" where
  "framework op k = (case op (ray k) of (r, s') \<Rightarrow> (r, k\<lparr>ray := s'\<rparr>))"

definition lookup :: "string \<Rightarrow> binding py" where
  "lookup name k =
     (case globals k name of None \<Rightarrow> (Inl (Name_error name), k) | Some b \<Rightarrow> (Inr b, k))"

definition bind_name :: "string \<Rightarrow> binding \<Rightarrow> unit py" where
  "bind_name name b k = (Inr (), k\<lparr>globals := (globals k)(name \<mapsto> b)\<rparr>)"

text \<open>\<open>name = value\<close>\<close>

definition assign :: "string \<Rightarrow> pyval \<Rightarrow> unit py" where
  "assign name v = bind_name name (Value v)"

text \<open>A name used as an expression.\<close>

definition var :: "string \<Rightarrow> pyval py" where
  "var name =
     bindP (lookup name)
       (\<lambda>b. case b of Value v \<Rightarrow> returnP v | _ \<Rightarrow> returnP (PObj name))"

definition show_display :: "display \<Rightarrow> unit py" where
  "show_display d k = (Inr (), k\<lparr>out := out k @ [d]\<rparr>)"

text \<open>\<open>ic(expr)\<close> prints the expression's text with its value and returns the value.\<close>

definition ic :: "string \<Rightarrow> pyval \<Rightarrow> pyval py" where
  "ic label v = thenP (show_display (Ic label v)) (returnP v)"

text \<open>\<open>def name(): ...\<close> and \<open>@ray.remote def name(): ...\<close> and \<open>@ray.remote class Counter\<close>\<close>

definition def_function :: "string \<Rightarrow> body \<Rightarrow> unit py" where
  "def_function name f = bind_name name (Function f)"

definition def_remote_function :: "string \<Rightarrow> body \<Rightarrow> unit py" where
  "def_remote_function name f =
     thenP (framework (ray_remote name)) (bind_name name (Remote_function f))"

definition def_remote_class :: "string \<Rightarrow> unit py" where
  "def_remote_class name =
     thenP (framework (ray_remote name)) (bind_name name Actor_class)"

text \<open>\<open>name()\<close>: a plain function runs in the notebook's process; a remote one refuses.\<close>

definition call_function :: "env \<Rightarrow> string \<Rightarrow> pyval py" where
  "call_function e name =
     bindP (lookup name)
       (\<lambda>b. case b of
          Function f \<Rightarrow>
            (case f (local_draw e) of
               Inl x \<Rightarrow> raiseP (Python_exception x)
             | Inr v \<Rightarrow> returnP v)
        | _ \<Rightarrow> raiseP (Type_error name))"

text \<open>\<open>name.remote()\<close>: the invocation of a remote function or of the remote class.\<close>

definition remote_call :: "env \<Rightarrow> string \<Rightarrow> pyval py" where
  "remote_call e name =
     bindP (lookup name)
       (\<lambda>b. case b of
          Remote_function f \<Rightarrow> framework (submit e name f)
        | Actor_class \<Rightarrow> framework (actor_create name)
        | _ \<Rightarrow> raiseP (Attribute_error ''remote''))"

text \<open>\<open>name.method.remote()\<close>: the invocation of an actor's method.\<close>

definition method_remote :: "env \<Rightarrow> string \<Rightarrow> string \<Rightarrow> pyval py" where
  "method_remote e name m =
     bindP (lookup name)
       (\<lambda>b. case b of
          Value (PActor a) \<Rightarrow> framework (actor_call e a m)
        | _ \<Rightarrow> raiseP (Attribute_error m))"

text \<open>\<open>name.append(v)\<close>\<close>

definition append_to :: "string \<Rightarrow> pyval \<Rightarrow> unit py" where
  "append_to name v =
     bindP (lookup name)
       (\<lambda>b. case b of
          Value (PList xs) \<Rightarrow> assign name (PList (xs @ [v]))
        | _ \<Rightarrow> raiseP (Attribute_error ''append''))"

text \<open>\<open>range(n)\<close> and \<open>for x in xs: ...\<close> (the loop variable is a name of the notebook).\<close>

definition range_py :: "nat \<Rightarrow> pyval list" where
  "range_py n = map (\<lambda>i. PInt (int i)) [0..<n]"

primrec for_each :: "string \<Rightarrow> pyval list \<Rightarrow> unit py \<Rightarrow> unit py" where
  "for_each x [] body = returnP ()"
| "for_each x (v # vs) body = thenP (assign x v) (thenP body (for_each x vs body))"

definition for_in :: "string \<Rightarrow> string \<Rightarrow> unit py \<Rightarrow> unit py" where
  "for_in x name body =
     bindP (lookup name)
       (\<lambda>b. case b of
          Value (PList xs) \<Rightarrow> for_each x xs body
        | _ \<Rightarrow> raiseP (Type_error name))"

text \<open>
  A call into scikit-learn, numpy or joblib. What these libraries compute (floating
  point) is outside this development: the call prints the lines that the environment
  gives for it, and then raises the exception that the environment gives for it or, if
  there is none, returns an opaque object. For \<open>clf.fit\<close> under the backend \<open>ray\<close> this
  is where the fits that run on the cluster's workers print, and where the failure of one
  of them reaches the notebook.
\<close>

definition print_lines :: "string list \<Rightarrow> unit py" where
  "print_lines ls k = (Inr (), k\<lparr>out := out k @ map Stdout ls\<rparr>)"

definition library :: "env \<Rightarrow> string \<Rightarrow> pyval py" where
  "library e what =
     thenP (print_lines (printed e what))
       (case raised e what of Some x \<Rightarrow> raiseP x | None \<Rightarrow> returnP (PObj what))"

text \<open>Running the cells in order; the first exception stops the run.\<close>

primrec run_cells :: "unit py list \<Rightarrow> unit py" where
  "run_cells [] = returnP ()"
| "run_cells (c # cs) = thenP c (run_cells cs)"

definition run :: "unit py list \<Rightarrow> (error + unit) \<times> kernel" where
  "run cells = run_cells cells fresh_kernel"

text \<open>An expression used as a statement, and the last expression of a cell (\<open>Out[n]\<close>).\<close>

definition discard :: "pyval py \<Rightarrow> unit py" where
  "discard m = bindP m (\<lambda>_. returnP ())"

definition display_expr :: "pyval py \<Rightarrow> unit py" where
  "display_expr m = bindP m (\<lambda>v. show_display (Out v))"

text \<open>Import statements bind library names only.\<close>

definition imports_only :: "unit py" where
  "imports_only = returnP ()"

section \<open>Notebook ex_remo_func: remote functions\<close>

text \<open>
  \<^verbatim>\<open>
  ray.init(
      ignore_reinit_error=True,
      logging_level=logging.ERROR,
  )

  print(f"Dashboard URL: http://{ray.get_dashboard_url()}")
  \<close>
\<close>

definition ex_remo_func_In1 :: "unit py" where
  "ex_remo_func_In1 =
     thenP (framework (ray_init True))
       (bindP (framework ray_get_dashboard_url)
          (\<lambda>url. show_display (Stdout (''Dashboard URL: http://'' @ url))))"

text \<open>\<^verbatim>\<open>import time\<close>, \<^verbatim>\<open>import random\<close>\<close>

definition ex_remo_func_In2 :: "unit py" where
  "ex_remo_func_In2 = imports_only"

text \<open>\<^verbatim>\<open>def my_function (): return 42\<close>\<close>

definition ex_remo_func_In3 :: "unit py" where
  "ex_remo_func_In3 = def_function ''my_function'' my_function"

text \<open>\<^verbatim>\<open>my_function()\<close>\<close>

definition ex_remo_func_In4 :: "env \<Rightarrow> unit py" where
  "ex_remo_func_In4 e = display_expr (call_function e ''my_function'')"

text \<open>\<^verbatim>\<open>@ray.remote def my_function(): return 42\<close>\<close>

definition ex_remo_func_In5 :: "unit py" where
  "ex_remo_func_In5 = def_remote_function ''my_function'' my_function"

text \<open>
  \<^verbatim>\<open>
  obj_ref = my_function.remote()
  obj_ref
  \<close>
\<close>

definition ex_remo_func_In6 :: "env \<Rightarrow> unit py" where
  "ex_remo_func_In6 e =
     thenP (bindP (remote_call e ''my_function'') (assign ''obj_ref''))
       (display_expr (var ''obj_ref''))"

text \<open>\<^verbatim>\<open>ray.get(obj_ref)\<close>\<close>

definition ex_remo_func_In7 :: "unit py" where
  "ex_remo_func_In7 =
     display_expr (bindP (var ''obj_ref'') (\<lambda>r. framework (ray_get r)))"

text \<open>\<^verbatim>\<open>@ray.remote def slow_function(): time.sleep(2); return random.randint(0, 9)\<close>\<close>

definition ex_remo_func_In8 :: "unit py" where
  "ex_remo_func_In8 = def_remote_function ''slow_function'' slow_function"

text \<open>
  \<^verbatim>\<open>
  futures_list = []

  for i in range(4):
      future = slow_function.remote()
      futures_list.append(future)
      ic(i)
  \<close>
\<close>

definition ex_remo_func_In9 :: "env \<Rightarrow> unit py" where
  "ex_remo_func_In9 e =
     thenP (assign ''futures_list'' (PList []))
       (for_each ''i'' (range_py 4)
          (thenP (bindP (remote_call e ''slow_function'') (assign ''future''))
             (thenP (bindP (var ''future'') (append_to ''futures_list''))
                (discard (bindP (var ''i'') (ic ''i''))))))"

text \<open>
  \<^verbatim>\<open>
  for future in futures_list:
      ic(ray.get(future))
  \<close>
\<close>

definition ex_remo_func_In10 :: "unit py" where
  "ex_remo_func_In10 =
     for_in ''future'' ''futures_list''
       (discard
          (bindP (bindP (var ''future'') (\<lambda>r. framework (ray_get r)))
             (ic ''ray.get(future)'')))"

text \<open>\<^verbatim>\<open>ray.shutdown()\<close>\<close>

definition ex_remo_func_In11 :: "unit py" where
  "ex_remo_func_In11 = framework ray_shutdown"

definition ex_remo_func :: "env \<Rightarrow> unit py list" where
  "ex_remo_func e =
     [ex_remo_func_In1, ex_remo_func_In2, ex_remo_func_In3, ex_remo_func_In4 e,
      ex_remo_func_In5, ex_remo_func_In6 e, ex_remo_func_In7, ex_remo_func_In8,
      ex_remo_func_In9 e, ex_remo_func_In10, ex_remo_func_In11]"

section \<open>Notebook ex_remo_meth: remote classes\<close>

text \<open>The same first cell as in ex_remo_func.\<close>

definition ex_remo_meth_In1 :: "unit py" where
  "ex_remo_meth_In1 =
     thenP (framework (ray_init True))
       (bindP (framework ray_get_dashboard_url)
          (\<lambda>url. show_display (Stdout (''Dashboard URL: http://'' @ url))))"

text \<open>\<^verbatim>\<open>@ray.remote class Counter (object): ...\<close>\<close>

definition ex_remo_meth_In2 :: "unit py" where
  "ex_remo_meth_In2 = def_remote_class ''Counter''"

text \<open>\<^verbatim>\<open>counter = Counter.remote()\<close>\<close>

definition ex_remo_meth_In3 :: "env \<Rightarrow> unit py" where
  "ex_remo_meth_In3 e = bindP (remote_call e ''Counter'') (assign ''counter'')"

text \<open>
  \<^verbatim>\<open>
  obj_ref = counter.increment.remote()
  ray.get(obj_ref)
  \<close>
\<close>

definition ex_remo_meth_In4 :: "env \<Rightarrow> unit py" where
  "ex_remo_meth_In4 e =
     thenP (bindP (method_remote e ''counter'' ''increment'') (assign ''obj_ref''))
       (display_expr (bindP (var ''obj_ref'') (\<lambda>r. framework (ray_get r))))"

text \<open>\<^verbatim>\<open>ray.shutdown()\<close>\<close>

definition ex_remo_meth_In5 :: "unit py" where
  "ex_remo_meth_In5 = framework ray_shutdown"

definition ex_remo_meth :: "env \<Rightarrow> unit py list" where
  "ex_remo_meth e =
     [ex_remo_meth_In1, ex_remo_meth_In2, ex_remo_meth_In3 e, ex_remo_meth_In4 e,
      ex_remo_meth_In5]"

section \<open>Notebook JobLib (the second notebook stored in ex_remo_func.ipynb)\<close>

text \<open>The same first cell again.\<close>

definition ex_joblib_In1 :: "unit py" where
  "ex_joblib_In1 =
     thenP (framework (ray_init True))
       (bindP (framework ray_get_dashboard_url)
          (\<lambda>url. show_display (Stdout (''Dashboard URL: http://'' @ url))))"

definition ex_joblib_In2 :: "unit py" where
  "ex_joblib_In2 = imports_only"

text \<open>\<^verbatim>\<open>register_ray()\<close>\<close>

definition ex_joblib_In3 :: "unit py" where
  "ex_joblib_In3 = framework register_ray"

text \<open>\<^verbatim>\<open>digits = load_digits()\<close>\<close>

definition ex_joblib_In4 :: "env \<Rightarrow> unit py" where
  "ex_joblib_In4 e = bindP (library e ''load_digits'') (assign ''digits'')"

text \<open>\<^verbatim>\<open>param_space = {...}\<close>, \<^verbatim>\<open>model = SVC(kernel="rbf")\<close>\<close>

definition ex_joblib_In5 :: "env \<Rightarrow> unit py" where
  "ex_joblib_In5 e =
     thenP (bindP (library e ''np.logspace'') (assign ''param_space''))
       (bindP (library e ''SVC'') (assign ''model''))"

text \<open>
  \<^verbatim>\<open>
  clf = RandomizedSearchCV(model, param_space, cv=5, n_iter=10, verbose=10)
  clf
  \<close>
\<close>

definition ex_joblib_In6 :: "env \<Rightarrow> unit py" where
  "ex_joblib_In6 e =
     thenP
       (bindP (var ''model'')
          (\<lambda>_. bindP (var ''param_space'')
             (\<lambda>_. bindP (library e ''RandomizedSearchCV'') (assign ''clf''))))
       (display_expr (var ''clf''))"

text \<open>
  \<^verbatim>\<open>
  with joblib.parallel_backend("ray"):
      search = clf.fit(digits.data, digits.target)
  \<close>
  Selecting the backend named \<open>ray\<close> hands the fits to the framework: \<open>clf.fit\<close> runs
  them on the cluster's workers (the recorded output shows 50 fits on 8 workers), prints
  their progress, and raises in the notebook if the work fails.
\<close>

definition parallel_backend :: "string \<Rightarrow> unit ray_op" where
  "parallel_backend name s = (Inr (), logged (Parallel_backend name) s)"

definition ex_joblib_In7 :: "env \<Rightarrow> unit py" where
  "ex_joblib_In7 e =
     thenP (framework (parallel_backend ''ray''))
       (bindP (var ''clf'')
          (\<lambda>_. bindP (var ''digits'')
             (\<lambda>_. bindP (library e ''fit'') (assign ''search''))))"

text \<open>\<^verbatim>\<open>search.best_params_\<close>\<close>

definition ex_joblib_In8 :: "env \<Rightarrow> unit py" where
  "ex_joblib_In8 e =
     display_expr (bindP (var ''search'') (\<lambda>_. library e ''best_params_''))"

text \<open>\<^verbatim>\<open>ray.shutdown()\<close>\<close>

definition ex_joblib_In9 :: "unit py" where
  "ex_joblib_In9 = framework ray_shutdown"

definition ex_joblib :: "env \<Rightarrow> unit py list" where
  "ex_joblib e =
     [ex_joblib_In1, ex_joblib_In2, ex_joblib_In3, ex_joblib_In4 e, ex_joblib_In5 e,
      ex_joblib_In6 e, ex_joblib_In7 e, ex_joblib_In8 e, ex_joblib_In9]"

text \<open>
  The environment of the session whose outputs the notebooks store: no task failed, the
  four tasks of \<open>slow_function\<close> (handles 1 to 4) drew 1, 4, 0 and 1, and no library call
  raised. Of what \<open>clf.fit\<close> printed only the first line is kept here; the lines of the
  workers that follow it in the notebook (process ids, floating-point scores) are not.
\<close>

definition recorded :: env where
  "recorded =
     \<lparr>draws = (\<lambda>h. if h = 2 then 4 else if h = 3 then 0 else 1),
      fails = (\<lambda>h. None),
      local_draw = 0,
      printed = (\<lambda>w. if w = ''fit''
         then [''Fitting 5 folds for each of 10 candidates, totalling 50 fits''] else []),
      raised = (\<lambda>w. None)\<rparr>"

text \<open>
  The same session with one thing gone wrong: the worker of the task behind handle \<open>j\<close>
  dies, or \<open>clf.fit\<close> raises \<open>x\<close>.
\<close>

definition worker_dies :: "nat \<Rightarrow> env" where
  "worker_dies j = recorded\<lparr>fails := (\<lambda>h. if h = j then Some Worker_died else None)\<rparr>"


section \<open>Reading the log of framework calls\<close>

text \<open>
  The two operations of section 4 of the specification: a submit is the invocation of a
  remote function, of the remote class or of an actor's method; a resolve is \<open>ray.get\<close>.
\<close>

fun is_submit :: "api_call \<Rightarrow> bool" where
  "is_submit (Submit f h) = True"
| "is_submit (Submit_method a m h) = True"
| "is_submit (Actor_create c a) = True"
| "is_submit _ = False"

fun is_resolve :: "api_call \<Rightarrow> bool" where
  "is_resolve (Resolve h) = True"
| "is_resolve _ = False"

definition submit_or_resolve :: "api_call \<Rightarrow> bool" where
  "submit_or_resolve c = (is_submit c \<or> is_resolve c)"

fun is_init :: "api_call \<Rightarrow> bool" where
  "is_init (Ray_init b) = True"
| "is_init _ = False"


text \<open>
  The lifecycle of section 2 read as one pass through five phases: bootstrap (0),
  definition (1), invocation (2), resolution (3), teardown (4). The calls of the joblib
  integration belong to none of them.
\<close>

fun phase :: "api_call \<Rightarrow> nat option" where
  "phase (Ray_init b) = Some 0"
| "phase Ray_get_dashboard_url = Some 0"
| "phase (Ray_remote f) = Some 1"
| "phase (Actor_create c a) = Some 2"
| "phase (Submit f h) = Some 2"
| "phase (Submit_method a m h) = Some 2"
| "phase (Resolve h) = Some 3"
| "phase Ray_shutdown = Some 4"
| "phase Register_ray = None"
| "phase (Parallel_backend b) = None"

definition one_pass :: "api_call list \<Rightarrow> bool" where
  "one_pass cs = sorted (List.map_filter phase cs)"

text \<open>
  The lifecycle read task by task. \<open>lifecycle seen cs\<close> checks the calls \<open>cs\<close> that follow the
  calls \<open>seen\<close>: \<open>ray.init\<close> is the first call of all, \<open>ray.shutdown\<close> the last; a remote
  function or class is invoked after its definition, a method after its actor was
  created; a handle is resolved after the submit that created it.
\<close>

fun submitted :: "nat \<Rightarrow> api_call \<Rightarrow> bool" where
  "submitted h (Submit f h') = (h = h')"
| "submitted h (Submit_method a m h') = (h = h')"
| "submitted h _ = False"

fun created_actor :: "nat \<Rightarrow> api_call \<Rightarrow> bool" where
  "created_actor a (Actor_create c a') = (a = a')"
| "created_actor a _ = False"

fun in_order :: "api_call list \<Rightarrow> api_call \<Rightarrow> api_call list \<Rightarrow> bool" where
  "in_order seen (Ray_init b) rest = (seen = [])"
| "in_order seen Ray_shutdown rest = (seen \<noteq> [] \<and> rest = [])"
| "in_order seen (Ray_remote f) rest = (seen \<noteq> [])"
| "in_order seen (Submit f h) rest = (Ray_remote f \<in> set seen)"
| "in_order seen (Actor_create c a) rest = (Ray_remote c \<in> set seen)"
| "in_order seen (Submit_method a m h) rest = list_ex (created_actor a) seen"
| "in_order seen (Resolve h) rest = list_ex (submitted h) seen"
| "in_order seen c rest = (seen \<noteq> [])"

fun lifecycle :: "api_call list \<Rightarrow> api_call list \<Rightarrow> bool" where
  "lifecycle seen [] = True"
| "lifecycle seen (c # cs) = (in_order seen c cs \<and> lifecycle (seen @ [c]) cs)"

text \<open>
  The end of the lifecycle: the last framework call of the run is \<open>ray.shutdown\<close>, and it
  has released the connection.
\<close>

definition released_at_the_end :: "kernel \<Rightarrow> bool" where
  "released_at_the_end k =
     (calls (ray k) \<noteq> [] \<and> last (calls (ray k)) = Ray_shutdown \<and> \<not> connected (ray k))"

section \<open>Unfolding the model\<close>

lemmas kernel_defs = run_def thenP_def bindP_def returnP_def raiseP_def framework_def
  lookup_def bind_name_def assign_def var_def show_display_def ic_def def_function_def
  def_remote_function_def def_remote_class_def call_function_def remote_call_def
  method_remote_def append_to_def range_py_def for_in_def library_def print_lines_def
  discard_def
  display_expr_def imports_only_def fresh_kernel_def

lemmas ray_defs = no_session_def logged_def ray_init_def ray_get_dashboard_url_def
  ray_remote_def outcome_def submit_def actor_create_def Counter_method_def actor_call_def
  resolve_ref_def ray_get_def ray_shutdown_def register_ray_def parallel_backend_def
  Counter_init_def increment_def

lemmas func_defs = ex_remo_func_def ex_remo_func_In1_def ex_remo_func_In2_def
  ex_remo_func_In3_def ex_remo_func_In4_def ex_remo_func_In5_def ex_remo_func_In6_def
  ex_remo_func_In7_def ex_remo_func_In8_def ex_remo_func_In9_def ex_remo_func_In10_def
  ex_remo_func_In11_def my_function_def slow_function_def randint_def

lemmas meth_defs = ex_remo_meth_def ex_remo_meth_In1_def ex_remo_meth_In2_def
  ex_remo_meth_In3_def ex_remo_meth_In4_def ex_remo_meth_In5_def

lemmas joblib_defs = ex_joblib_def ex_joblib_In1_def ex_joblib_In2_def ex_joblib_In3_def
  ex_joblib_In4_def ex_joblib_In5_def ex_joblib_In6_def ex_joblib_In7_def
  ex_joblib_In8_def ex_joblib_In9_def

section \<open>The runs of the notebooks\<close>

text \<open>
  A run of ex_remo_func is decided by the first of its five tasks (handles 0 to 4) that
  fails, a run of ex_remo_meth by whether its one task fails.
\<close>

lemma func_fail0:
  assumes "fails e 0 = Some f"
  shows "fst (run (ex_remo_func e)) = Inl (Remote_failure f)"
    and "calls (ray (snd (run (ex_remo_func e)))) =
     [Ray_init True,
      Ray_get_dashboard_url,
      Ray_remote ''my_function'',
      Submit ''my_function'' 0,
      Resolve 0]"
    and "out (snd (run (ex_remo_func e))) =
     [Stdout ''Dashboard URL: http://127.0.0.1:8265'',
      Out (PInt 42),
      Out (PRef 0)]"
    and "connected (ray (snd (run (ex_remo_func e))))"
  using assms by (simp_all add: kernel_defs ray_defs func_defs upt_rec del: One_nat_def)

lemma func_fail1:
  assumes "fails e 0 = None" "fails e 1 = Some f"
  shows "fst (run (ex_remo_func e)) = Inl (Remote_failure f)"
    and "calls (ray (snd (run (ex_remo_func e)))) =
     [Ray_init True,
      Ray_get_dashboard_url,
      Ray_remote ''my_function'',
      Submit ''my_function'' 0,
      Resolve 0,
      Ray_remote ''slow_function'',
      Submit ''slow_function'' 1,
      Submit ''slow_function'' 2,
      Submit ''slow_function'' 3,
      Submit ''slow_function'' 4,
      Resolve 1]"
    and "out (snd (run (ex_remo_func e))) =
     [Stdout ''Dashboard URL: http://127.0.0.1:8265'',
      Out (PInt 42),
      Out (PRef 0),
      Out (PInt 42),
      Ic ''i'' (PInt 0),
      Ic ''i'' (PInt 1),
      Ic ''i'' (PInt 2),
      Ic ''i'' (PInt 3)]"
    and "connected (ray (snd (run (ex_remo_func e))))"
  using assms by (simp_all add: kernel_defs ray_defs func_defs upt_rec del: One_nat_def)

lemma func_fail2:
  assumes "fails e 0 = None" "fails e 1 = None" "fails e 2 = Some f"
  shows "fst (run (ex_remo_func e)) = Inl (Remote_failure f)"
    and "calls (ray (snd (run (ex_remo_func e)))) =
     [Ray_init True,
      Ray_get_dashboard_url,
      Ray_remote ''my_function'',
      Submit ''my_function'' 0,
      Resolve 0,
      Ray_remote ''slow_function'',
      Submit ''slow_function'' 1,
      Submit ''slow_function'' 2,
      Submit ''slow_function'' 3,
      Submit ''slow_function'' 4,
      Resolve 1,
      Resolve 2]"
    and "out (snd (run (ex_remo_func e))) =
     [Stdout ''Dashboard URL: http://127.0.0.1:8265'',
      Out (PInt 42),
      Out (PRef 0),
      Out (PInt 42),
      Ic ''i'' (PInt 0),
      Ic ''i'' (PInt 1),
      Ic ''i'' (PInt 2),
      Ic ''i'' (PInt 3),
      Ic ''ray.get(future)'' (PInt (int (draws e 1 mod 10)))]"
    and "connected (ray (snd (run (ex_remo_func e))))"
  using assms by (simp_all add: kernel_defs ray_defs func_defs upt_rec del: One_nat_def)

lemma func_fail3:
  assumes "fails e 0 = None" "fails e 1 = None" "fails e 2 = None" "fails e 3 = Some f"
  shows "fst (run (ex_remo_func e)) = Inl (Remote_failure f)"
    and "calls (ray (snd (run (ex_remo_func e)))) =
     [Ray_init True,
      Ray_get_dashboard_url,
      Ray_remote ''my_function'',
      Submit ''my_function'' 0,
      Resolve 0,
      Ray_remote ''slow_function'',
      Submit ''slow_function'' 1,
      Submit ''slow_function'' 2,
      Submit ''slow_function'' 3,
      Submit ''slow_function'' 4,
      Resolve 1,
      Resolve 2,
      Resolve 3]"
    and "out (snd (run (ex_remo_func e))) =
     [Stdout ''Dashboard URL: http://127.0.0.1:8265'',
      Out (PInt 42),
      Out (PRef 0),
      Out (PInt 42),
      Ic ''i'' (PInt 0),
      Ic ''i'' (PInt 1),
      Ic ''i'' (PInt 2),
      Ic ''i'' (PInt 3),
      Ic ''ray.get(future)'' (PInt (int (draws e 1 mod 10))),
      Ic ''ray.get(future)'' (PInt (int (draws e 2 mod 10)))]"
    and "connected (ray (snd (run (ex_remo_func e))))"
  using assms by (simp_all add: kernel_defs ray_defs func_defs upt_rec del: One_nat_def)

lemma func_fail4:
  assumes "fails e 0 = None" "fails e 1 = None" "fails e 2 = None" "fails e 3 = None" "fails e 4 = Some f"
  shows "fst (run (ex_remo_func e)) = Inl (Remote_failure f)"
    and "calls (ray (snd (run (ex_remo_func e)))) =
     [Ray_init True,
      Ray_get_dashboard_url,
      Ray_remote ''my_function'',
      Submit ''my_function'' 0,
      Resolve 0,
      Ray_remote ''slow_function'',
      Submit ''slow_function'' 1,
      Submit ''slow_function'' 2,
      Submit ''slow_function'' 3,
      Submit ''slow_function'' 4,
      Resolve 1,
      Resolve 2,
      Resolve 3,
      Resolve 4]"
    and "out (snd (run (ex_remo_func e))) =
     [Stdout ''Dashboard URL: http://127.0.0.1:8265'',
      Out (PInt 42),
      Out (PRef 0),
      Out (PInt 42),
      Ic ''i'' (PInt 0),
      Ic ''i'' (PInt 1),
      Ic ''i'' (PInt 2),
      Ic ''i'' (PInt 3),
      Ic ''ray.get(future)'' (PInt (int (draws e 1 mod 10))),
      Ic ''ray.get(future)'' (PInt (int (draws e 2 mod 10))),
      Ic ''ray.get(future)'' (PInt (int (draws e 3 mod 10)))]"
    and "connected (ray (snd (run (ex_remo_func e))))"
  using assms by (simp_all add: kernel_defs ray_defs func_defs upt_rec del: One_nat_def)

lemma func_ok:
  assumes "fails e 0 = None" "fails e 1 = None" "fails e 2 = None" "fails e 3 = None" "fails e 4 = None"
  shows "fst (run (ex_remo_func e)) = Inr ()"
    and "calls (ray (snd (run (ex_remo_func e)))) =
     [Ray_init True,
      Ray_get_dashboard_url,
      Ray_remote ''my_function'',
      Submit ''my_function'' 0,
      Resolve 0,
      Ray_remote ''slow_function'',
      Submit ''slow_function'' 1,
      Submit ''slow_function'' 2,
      Submit ''slow_function'' 3,
      Submit ''slow_function'' 4,
      Resolve 1,
      Resolve 2,
      Resolve 3,
      Resolve 4,
      Ray_shutdown]"
    and "out (snd (run (ex_remo_func e))) =
     [Stdout ''Dashboard URL: http://127.0.0.1:8265'',
      Out (PInt 42),
      Out (PRef 0),
      Out (PInt 42),
      Ic ''i'' (PInt 0),
      Ic ''i'' (PInt 1),
      Ic ''i'' (PInt 2),
      Ic ''i'' (PInt 3),
      Ic ''ray.get(future)'' (PInt (int (draws e 1 mod 10))),
      Ic ''ray.get(future)'' (PInt (int (draws e 2 mod 10))),
      Ic ''ray.get(future)'' (PInt (int (draws e 3 mod 10))),
      Ic ''ray.get(future)'' (PInt (int (draws e 4 mod 10)))]"
    and "\<not> connected (ray (snd (run (ex_remo_func e))))"
  using assms by (simp_all add: kernel_defs ray_defs func_defs upt_rec del: One_nat_def)

lemma func_cases:
  obtains (ok) "fails e 0 = None" "fails e 1 = None" "fails e 2 = None" "fails e 3 = None"
      "fails e 4 = None"
  | (fail0) f where "fails e 0 = Some f"
  | (fail1) f where "fails e 0 = None" "fails e 1 = Some f"
  | (fail2) f where "fails e 0 = None" "fails e 1 = None" "fails e 2 = Some f"
  | (fail3) f where "fails e 0 = None" "fails e 1 = None" "fails e 2 = None"
      "fails e 3 = Some f"
  | (fail4) f where "fails e 0 = None" "fails e 1 = None" "fails e 2 = None"
      "fails e 3 = None" "fails e 4 = Some f"
  by (cases "fails e 0"; cases "fails e 1"; cases "fails e 2"; cases "fails e 3";
      cases "fails e 4") auto

lemma meth_fail0:
  assumes "fails e 0 = Some f"
  shows "fst (run (ex_remo_meth e)) = Inl (Remote_failure f)"
    and "calls (ray (snd (run (ex_remo_meth e)))) =
     [Ray_init True, Ray_get_dashboard_url, Ray_remote ''Counter'',
      Actor_create ''Counter'' 0, Submit_method 0 ''increment'' 0, Resolve 0]"
    and "out (snd (run (ex_remo_meth e))) = [Stdout ''Dashboard URL: http://127.0.0.1:8265'']"
    and "connected (ray (snd (run (ex_remo_meth e))))"
  using assms by (simp_all add: kernel_defs ray_defs meth_defs del: One_nat_def)

lemma meth_ok:
  assumes "fails e 0 = None"
  shows "fst (run (ex_remo_meth e)) = Inr ()"
    and "calls (ray (snd (run (ex_remo_meth e)))) =
     [Ray_init True, Ray_get_dashboard_url, Ray_remote ''Counter'',
      Actor_create ''Counter'' 0, Submit_method 0 ''increment'' 0, Resolve 0, Ray_shutdown]"
    and "out (snd (run (ex_remo_meth e))) =
     [Stdout ''Dashboard URL: http://127.0.0.1:8265'', Out (PInt 1)]"
    and "\<not> connected (ray (snd (run (ex_remo_meth e))))"
  using assms by (simp_all add: kernel_defs ray_defs meth_defs del: One_nat_def)

text \<open>
  A run of the JobLib notebook is decided by the first of its six library calls that
  raises.
\<close>

lemma joblib_ok:
  assumes "\<forall>w. raised e w = None"
  shows "fst (run (ex_joblib e)) = Inr ()"
    and "calls (ray (snd (run (ex_joblib e)))) =
     [Ray_init True, Ray_get_dashboard_url, Register_ray, Parallel_backend ''ray'',
      Ray_shutdown]"
    and "out (snd (run (ex_joblib e))) =
     Stdout ''Dashboard URL: http://127.0.0.1:8265'' #
     map Stdout (printed e ''load_digits'') @ map Stdout (printed e ''np.logspace'') @
     map Stdout (printed e ''SVC'') @ map Stdout (printed e ''RandomizedSearchCV'') @
     Out (PObj ''RandomizedSearchCV'') #
     map Stdout (printed e ''fit'') @ map Stdout (printed e ''best_params_'') @
     [Out (PObj ''best_params_'')]"
    and "\<not> connected (ray (snd (run (ex_joblib e))))"
  using assms by (simp_all add: kernel_defs ray_defs joblib_defs del: One_nat_def)


lemma joblib_any:
  shows "lifecycle [] (calls (ray (snd (run (ex_joblib e)))))"
    and "take 2 (calls (ray (snd (run (ex_joblib e))))) =
      [Ray_init True, Ray_get_dashboard_url]"
    and "filter is_init (calls (ray (snd (run (ex_joblib e))))) = [Ray_init True]"
    and "filter submit_or_resolve (calls (ray (snd (run (ex_joblib e))))) = []"
  by (simp_all add: kernel_defs ray_defs joblib_defs submit_or_resolve_def
      split: option.splits del: One_nat_def)


text \<open>ex_remo_func up to cell 6 (nothing has been resolved yet) and up to cell 7.\<close>

lemma func_first_six:
  shows "out (snd (run (take 6 (ex_remo_func e)))) =
      [Stdout ''Dashboard URL: http://127.0.0.1:8265'', Out (PInt 42), Out (PRef 0)]"
    and "globals (snd (run (take 6 (ex_remo_func e)))) ''obj_ref'' = Some (Value (PRef 0))"
    and "fst (run (take 6 (ex_remo_func e))) = Inr ()"
  by (simp_all add: kernel_defs ray_defs func_defs del: One_nat_def)

lemma func_first_seven:
  assumes "fails e 0 = None"
  shows "out (snd (run (take 7 (ex_remo_func e)))) =
      [Stdout ''Dashboard URL: http://127.0.0.1:8265'', Out (PInt 42), Out (PRef 0),
       Out (PInt 42)]"
  using assms by (simp_all add: kernel_defs ray_defs func_defs del: One_nat_def)

lemma meth_obj_ref:
  "globals (snd (run (ex_remo_meth e))) ''obj_ref'' = Some (Value (PRef 0))"
  by (cases "fails e 0") (simp_all add: kernel_defs ray_defs meth_defs del: One_nat_def)





text \<open>Order, errors and bootstrap calls of the runs.\<close>

lemma func_lifecycle:
  "lifecycle [] (calls (ray (snd (run (ex_remo_func e)))))"
  "take 2 (calls (ray (snd (run (ex_remo_func e))))) = [Ray_init True, Ray_get_dashboard_url]"
  by (cases rule: func_cases [of e];
      simp add: func_ok func_fail0 func_fail1 func_fail2 func_fail3 func_fail4)+

lemma meth_lifecycle:
  "lifecycle [] (calls (ray (snd (run (ex_remo_meth e)))))"
  "take 2 (calls (ray (snd (run (ex_remo_meth e))))) = [Ray_init True, Ray_get_dashboard_url]"
  by (cases "fails e 0"; simp add: meth_ok meth_fail0)+










lemma run_cells_append:
  "run_cells (xs @ ys) k =
     (case run_cells xs k of (Inl e, k') \<Rightarrow> (Inl e, k') | (Inr u, k') \<Rightarrow> run_cells ys k')"
  by (induction xs arbitrary: k)
     (simp_all add: thenP_def bindP_def returnP_def split: prod.splits sum.splits)

section \<open>The Counter actor\<close>

text \<open>
  One run of cell 4 of ex_remo_meth on a kernel whose name \<open>counter\<close> is an actor in state
  \<open>c\<close>: it displays the value of \<open>c\<close> plus one and leaves the actor with that value.
\<close>

lemma ex_remo_meth_In4_step:
  assumes "connected (ray k)" "globals k ''counter'' = Some (Value (PActor a))"
    "actors (ray k) a = Some c" "\<forall>h. fails e h = None"
  shows "\<exists>k'. ex_remo_meth_In4 e k = (Inr (), k') \<and> connected (ray k') \<and>
     globals k' ''counter'' = Some (Value (PActor a)) \<and>
     actors (ray k') a = Some (c\<lparr>self_value := self_value c + 1\<rparr>) \<and>
     out k' = out k @ [Out (PInt (self_value c + 1))]"
  using assms by (simp add: kernel_defs ray_defs meth_defs Let_def)

lemma ex_remo_meth_In4_repeat:
  assumes "connected (ray k)" "globals k ''counter'' = Some (Value (PActor a))"
    "actors (ray k) a = Some c" "\<forall>h. fails e h = None"
  shows "\<exists>k'. run_cells (replicate n (ex_remo_meth_In4 e)) k = (Inr (), k') \<and>
     out k' = out k @ map (\<lambda>i. Out (PInt (self_value c + 1 + int i))) [0..<n]"
  using assms
proof (induction n arbitrary: k c)
  case 0
  then show ?case by (simp add: returnP_def)
next
  case (Suc n)
  from ex_remo_meth_In4_step [OF Suc.prems] obtain k1 where
    k1: "ex_remo_meth_In4 e k = (Inr (), k1)" "connected (ray k1)"
       "globals k1 ''counter'' = Some (Value (PActor a))"
       "actors (ray k1) a = Some (c\<lparr>self_value := self_value c + 1\<rparr>)"
       "out k1 = out k @ [Out (PInt (self_value c + 1))]"
    by blast
  from Suc.IH [OF k1(2) k1(3) k1(4) Suc.prems(4)] obtain k2 where
    k2: "run_cells (replicate n (ex_remo_meth_In4 e)) k1 = (Inr (), k2)"
      "out k2 = out k1 @ map (\<lambda>i. Out (PInt
         (self_value (c\<lparr>self_value := self_value c + 1\<rparr>) + 1 + int i))) [0..<n]"
    by blast
  have "map (\<lambda>i. Out (PInt (self_value c + 1 + int i))) [0..<Suc n] =
      Out (PInt (self_value c + 1)) #
      map (\<lambda>i. Out (PInt (self_value c + 1 + 1 + int i))) [0..<n]"
    by (simp add: upt_conv_Cons map_Suc_upt [symmetric] add.commute add.left_commute
        del: upt_Suc)
  with k1 k2 show ?case
    by (simp add: thenP_def bindP_def)
qed

text \<open>The kernel of ex_remo_meth after its first three cells: a fresh \<open>Counter\<close> actor.\<close>

lemma ex_remo_meth_fresh_actor:
  "\<exists>k. run_cells [ex_remo_meth_In1, ex_remo_meth_In2, ex_remo_meth_In3 e] fresh_kernel =
       (Inr (), k) \<and> connected (ray k) \<and>
     globals k ''counter'' = Some (Value (PActor 0)) \<and>
     actors (ray k) 0 = Some Counter_init \<and>
     out k = [Stdout ''Dashboard URL: http://127.0.0.1:8265'']"
  by (simp add: kernel_defs ray_defs meth_defs del: One_nat_def)

text \<open>
  Claim C8. A freshly created \<open>Counter\<close> has value 0. Every call of \<open>increment\<close> increases
  the value by exactly 1 and returns the new value. Hence, when no task fails, creating
  the actor (cells 1 to 3 of ex_remo_meth) and then running cell 4
  (\<open>obj_ref = counter.increment.remote()\<close>, \<open>ray.get(obj_ref)\<close>) \<open>n\<close> times displays
  1, 2, ..., \<open>n\<close>: the \<open>n\<close>-th increment on a fresh \<open>Counter\<close> resolves to \<open>n\<close>; and the notebook
  itself, which runs the cell once, displays 1.
\<close>

theorem Counter_nth_increment:
  "self_value Counter_init = 0 \<and>
   increment c = (PInt (self_value c + 1), c\<lparr>self_value := self_value c + 1\<rparr>) \<and>
   ((\<forall>h. fails e h = None) \<longrightarrow>
      out (snd (run ([ex_remo_meth_In1, ex_remo_meth_In2, ex_remo_meth_In3 e] @
                     replicate n (ex_remo_meth_In4 e)))) =
        Stdout ''Dashboard URL: http://127.0.0.1:8265'' #
        map (\<lambda>i. Out (PInt (int i + 1))) [0..<n]) \<and>
   ((\<forall>h. fails e h = None) \<longrightarrow>
      out (snd (run (ex_remo_meth e))) =
        [Stdout ''Dashboard URL: http://127.0.0.1:8265'', Out (PInt 1)])"
proof (intro conjI impI)
  show "self_value Counter_init = 0"
    by (simp add: Counter_init_def)
  show "increment c = (PInt (self_value c + 1), c\<lparr>self_value := self_value c + 1\<rparr>)"
    by (simp add: increment_def)
next
  assume quiet: "\<forall>h. fails e h = None"
  obtain k where
    k: "run_cells [ex_remo_meth_In1, ex_remo_meth_In2, ex_remo_meth_In3 e] fresh_kernel =
          (Inr (), k)"
      "connected (ray k)" "globals k ''counter'' = Some (Value (PActor 0))"
      "actors (ray k) 0 = Some Counter_init"
      "out k = [Stdout ''Dashboard URL: http://127.0.0.1:8265'']"
    using ex_remo_meth_fresh_actor [of e] by blast
  obtain k' where
    k': "run_cells (replicate n (ex_remo_meth_In4 e)) k = (Inr (), k')"
      "out k' = out k @ map (\<lambda>i. Out (PInt (self_value Counter_init + 1 + int i))) [0..<n]"
    using ex_remo_meth_In4_repeat [OF k(2) k(3) k(4) quiet, of n] by blast
  have "run ([ex_remo_meth_In1, ex_remo_meth_In2, ex_remo_meth_In3 e] @
             replicate n (ex_remo_meth_In4 e)) = (Inr (), k')"
    unfolding run_def run_cells_append using k(1) k'(1) by simp
  then show "out (snd (run ([ex_remo_meth_In1, ex_remo_meth_In2, ex_remo_meth_In3 e] @
                     replicate n (ex_remo_meth_In4 e)))) =
        Stdout ''Dashboard URL: http://127.0.0.1:8265'' #
        map (\<lambda>i. Out (PInt (int i + 1))) [0..<n]"
    using k(5) k'(2) by (simp add: Counter_init_def add.commute)
next
  assume "\<forall>h. fails e h = None"
  then show "out (snd (run (ex_remo_meth e))) =
      [Stdout ''Dashboard URL: http://127.0.0.1:8265'', Out (PInt 1)]"
    by (simp add: meth_ok(3))
qed

theorem Counter_nth_increment_witness:
  "(\<forall>h. fails recorded h = None) \<and>
   out (snd (run ([ex_remo_meth_In1, ex_remo_meth_In2, ex_remo_meth_In3 recorded] @
                  replicate 3 (ex_remo_meth_In4 recorded)))) =
     [Stdout ''Dashboard URL: http://127.0.0.1:8265'',
      Out (PInt 1), Out (PInt 2), Out (PInt 3)] \<and>
   out (snd (run (ex_remo_meth recorded))) =
     [Stdout ''Dashboard URL: http://127.0.0.1:8265'', Out (PInt 1)]"
proof -
  have quiet: "\<forall>h. fails recorded h = None"
    by (simp add: recorded_def)
  have "[0..<3] = [0, 1, 2]"
    by (simp add: upt_rec)
  with quiet Counter_nth_increment [of undefined recorded 3] show ?thesis
    by simp
qed

section \<open>The results of slow_function\<close>

text \<open>
  Claim C9. Every invocation of \<open>slow_function\<close> produces an integer between 0 and 9
  inclusive, whatever the generator of its worker draws; so every value that the second
  loop of ex_remo_func obtains by resolving a handle of \<open>futures_list\<close> (the values that
  \<open>ic(ray.get(future))\<close> shows) lies in the range 0 to 9, in every run.
\<close>

theorem slow_function_between_0_and_9:
  "(\<exists>n. slow_function r = Inr (PInt n) \<and> 0 \<le> n \<and> n \<le> 9) \<and>
   (\<forall>v. Ic ''ray.get(future)'' v \<in> set (out (snd (run (ex_remo_func e)))) \<longrightarrow>
        (\<exists>n. v = PInt n \<and> 0 \<le> n \<and> n \<le> 9))"
proof
  show "\<exists>n. slow_function r = Inr (PInt n) \<and> 0 \<le> n \<and> n \<le> 9"
    by (simp add: slow_function_def randint_def)
next
  show "\<forall>v. Ic ''ray.get(future)'' v \<in> set (out (snd (run (ex_remo_func e)))) \<longrightarrow>
        (\<exists>n. v = PInt n \<and> 0 \<le> n \<and> n \<le> 9)"
  proof (cases rule: func_cases [of e])
    case ok
    then show ?thesis by (auto simp: func_ok(3))
  next
    case (fail0 f)
    then show ?thesis by (simp add: func_fail0(3))
  next
    case (fail1 f)
    then show ?thesis by (simp add: func_fail1(3))
  next
    case (fail2 f)
    then show ?thesis by (auto simp: func_fail2(3))
  next
    case (fail3 f)
    then show ?thesis by (auto simp: func_fail3(3))
  next
    case (fail4 f)
    then show ?thesis by (auto simp: func_fail4(3))
  qed
qed

theorem slow_function_between_0_and_9_witness:
  "Ic ''ray.get(future)'' (PInt 4) \<in> set (out (snd (run (ex_remo_func recorded)))) \<and>
   (\<exists>n. PInt 4 = PInt n \<and> 0 \<le> n \<and> n \<le> 9)"
proof -
  have "Ic ''ray.get(future)'' (PInt 4) \<in> set (out (snd (run (ex_remo_func recorded))))"
    by (simp add: func_ok(3) recorded_def)
  with slow_function_between_0_and_9 [of 0 recorded] show ?thesis
    by blast
qed

section \<open>Invocation returns a handle\<close>

text \<open>
  Claim C1. Every invocation through \<open>.remote()\<close> of a remote function, of the remote class
  or of an actor's method returns a handle (an object ref, or an actor handle for the
  class), never the computed value. In ex_remo_func, \<open>obj_ref = my_function.remote()\<close>
  binds \<open>obj_ref\<close> to an object ref and cell 6 displays that ref, not 42; the value 42
  appears only when cell 7 resolves the ref with \<open>ray.get\<close>. In ex_remo_meth,
  \<open>counter.increment.remote()\<close> binds \<open>obj_ref\<close> to an object ref, and the value 1 is what
  \<open>ray.get(obj_ref)\<close> displays. (How soon the call returns is wall-clock behaviour and
  is not part of the statement.)
\<close>

theorem remote_returns_handle:
  "(fst (remote_call e f k1) = Inr v1 \<longrightarrow> (\<exists>h. v1 = PRef h \<or> v1 = PActor h)) \<and>
   (fst (method_remote e a m k2) = Inr v2 \<longrightarrow> (\<exists>h. v2 = PRef h)) \<and>
   globals (snd (run (take 6 (ex_remo_func e)))) ''obj_ref'' = Some (Value (PRef 0)) \<and>
   out (snd (run (take 6 (ex_remo_func e)))) =
     [Stdout ''Dashboard URL: http://127.0.0.1:8265'', Out (PInt 42), Out (PRef 0)] \<and>
   (fails e 0 = None \<longrightarrow>
      out (snd (run (take 7 (ex_remo_func e)))) =
        [Stdout ''Dashboard URL: http://127.0.0.1:8265'', Out (PInt 42), Out (PRef 0),
         Out (PInt 42)]) \<and>
   globals (snd (run (ex_remo_meth e))) ''obj_ref'' = Some (Value (PRef 0)) \<and>
   (fails e 0 = None \<longrightarrow>
      out (snd (run (ex_remo_meth e))) =
        [Stdout ''Dashboard URL: http://127.0.0.1:8265'', Out (PInt 1)])"
proof (intro conjI impI)
  assume "fst (remote_call e f k1) = Inr v1"
  then show "\<exists>h. v1 = PRef h \<or> v1 = PActor h"
    by (auto simp: remote_call_def bindP_def lookup_def raiseP_def framework_def submit_def
        actor_create_def Let_def split: option.splits binding.splits if_splits)
next
  assume "fst (method_remote e a m k2) = Inr v2"
  then show "\<exists>h. v2 = PRef h"
    by (auto simp: method_remote_def bindP_def lookup_def raiseP_def framework_def
        actor_call_def Let_def
        split: option.splits binding.splits pyval.splits if_splits prod.splits)
qed (simp_all add: func_first_six func_first_seven meth_obj_ref meth_ok)

theorem remote_returns_handle_witness:
  "fst (remote_call recorded ''my_function'' (snd (run (take 5 (ex_remo_func recorded))))) =
     Inr (PRef 0) \<and>
   fst (method_remote recorded ''counter'' ''increment''
          (snd (run (take 3 (ex_remo_meth recorded))))) = Inr (PRef 0) \<and>
   fails recorded 0 = None \<and>
   (\<exists>h. PRef 0 = PRef h \<or> PRef 0 = PActor h) \<and>
   out (snd (run (take 7 (ex_remo_func recorded)))) =
     [Stdout ''Dashboard URL: http://127.0.0.1:8265'', Out (PInt 42), Out (PRef 0),
      Out (PInt 42)] \<and>
   out (snd (run (ex_remo_meth recorded))) =
     [Stdout ''Dashboard URL: http://127.0.0.1:8265'', Out (PInt 1)]"
proof -
  have h1: "fst (remote_call recorded ''my_function''
      (snd (run (take 5 (ex_remo_func recorded))))) = Inr (PRef 0)"
    by (simp add: kernel_defs ray_defs func_defs recorded_def del: One_nat_def)
  have h2: "fst (method_remote recorded ''counter'' ''increment''
      (snd (run (take 3 (ex_remo_meth recorded))))) = Inr (PRef 0)"
    by (simp add: kernel_defs ray_defs meth_defs recorded_def del: One_nat_def)
  have h3: "fails recorded 0 = None"
    by (simp add: recorded_def)
  from remote_returns_handle [of recorded "''my_function''"
      "snd (run (take 5 (ex_remo_func recorded)))" "PRef 0" "''counter''" "''increment''"
      "snd (run (take 3 (ex_remo_meth recorded)))" "PRef 0"] h1 h2 h3
  show ?thesis by simp
qed

section \<open>Resolution returns what the callable returns\<close>

text \<open>
  Claim C2. Resolving a handle returns the value that the submitted computation produced:
  for a callable that returns \<open>v\<close> (in the worker as in the notebook's process), on a
  connected session whose framework does not fail the task, \<open>ray.get(f.remote())\<close> with
  \<open>f\<close> remote returns \<open>v\<close>, the same as the direct call \<open>f()\<close> of the plain function. So in
  ex_remo_func \<open>ray.get(obj_ref)\<close> displays 42 (cell 7), as the local call
  \<open>my_function()\<close> did (cell 4).
\<close>

theorem submit_then_resolve_is_call:
  "(connected (ray k) \<and> fails e (next_ref (ray k)) = None \<and>
    b (draws e (next_ref (ray k))) = Inr v \<and> b (local_draw e) = Inr v \<longrightarrow>
      fst (bindP (remote_call e f) (\<lambda>r. framework (ray_get r))
             (k\<lparr>globals := (globals k)(f \<mapsto> Remote_function b)\<rparr>)) = Inr v \<and>
      fst (call_function e f (k\<lparr>globals := (globals k)(f \<mapsto> Function b)\<rparr>)) = Inr v) \<and>
   (fails e 0 = None \<longrightarrow>
      out (snd (run (take 7 (ex_remo_func e)))) =
        [Stdout ''Dashboard URL: http://127.0.0.1:8265'', Out (PInt 42), Out (PRef 0),
         Out (PInt 42)])"
proof (intro conjI impI)
  assume h: "connected (ray k) \<and> fails e (next_ref (ray k)) = None \<and>
    b (draws e (next_ref (ray k))) = Inr v \<and> b (local_draw e) = Inr v"
  then show "fst (bindP (remote_call e f) (\<lambda>r. framework (ray_get r))
             (k\<lparr>globals := (globals k)(f \<mapsto> Remote_function b)\<rparr>)) = Inr v"
    by (simp add: kernel_defs ray_defs Let_def)
  from h show "fst (call_function e f (k\<lparr>globals := (globals k)(f \<mapsto> Function b)\<rparr>)) =
      Inr v"
    by (simp add: kernel_defs)
next
  assume "fails e 0 = None"
  then show "out (snd (run (take 7 (ex_remo_func e)))) =
        [Stdout ''Dashboard URL: http://127.0.0.1:8265'', Out (PInt 42), Out (PRef 0),
         Out (PInt 42)]"
    by (rule func_first_seven)
qed

theorem submit_then_resolve_is_call_witness:
  "connected (ray (snd (ex_remo_func_In1 fresh_kernel))) \<and>
   fails recorded (next_ref (ray (snd (ex_remo_func_In1 fresh_kernel)))) = None \<and>
   my_function (draws recorded (next_ref (ray (snd (ex_remo_func_In1 fresh_kernel))))) =
     Inr (PInt 42) \<and>
   my_function (local_draw recorded) = Inr (PInt 42) \<and>
   fails recorded 0 = None \<and>
   fst (bindP (remote_call recorded ''my_function'') (\<lambda>r. framework (ray_get r))
          ((snd (ex_remo_func_In1 fresh_kernel))
             \<lparr>globals := (globals (snd (ex_remo_func_In1 fresh_kernel)))
                (''my_function'' \<mapsto> Remote_function my_function)\<rparr>)) = Inr (PInt 42) \<and>
   fst (call_function recorded ''my_function''
          ((snd (ex_remo_func_In1 fresh_kernel))
             \<lparr>globals := (globals (snd (ex_remo_func_In1 fresh_kernel)))
                (''my_function'' \<mapsto> Function my_function)\<rparr>)) = Inr (PInt 42) \<and>
   out (snd (run (take 7 (ex_remo_func recorded)))) =
     [Stdout ''Dashboard URL: http://127.0.0.1:8265'', Out (PInt 42), Out (PRef 0),
      Out (PInt 42)]"
proof -
  have h1: "connected (ray (snd (ex_remo_func_In1 fresh_kernel)))"
    by (simp add: kernel_defs ray_defs func_defs)
  have h2: "fails recorded (next_ref (ray (snd (ex_remo_func_In1 fresh_kernel)))) = None"
    "fails recorded 0 = None"
    by (simp_all add: recorded_def)
  have h3: "my_function (draws recorded
      (next_ref (ray (snd (ex_remo_func_In1 fresh_kernel))))) = Inr (PInt 42)"
    "my_function (local_draw recorded) = Inr (PInt 42)"
    by (simp_all add: my_function_def)
  from submit_then_resolve_is_call [of "snd (ex_remo_func_In1 fresh_kernel)" recorded
      my_function "PInt 42" "''my_function''"] h1 h2 h3
  show ?thesis by simp
qed

section \<open>One handle per invocation, one resolution per handle\<close>



section \<open>The order of the framework calls\<close>

text \<open>
  The phases are followed task by task, not in one pass: ex_remo_func defines
  \<open>slow_function\<close> (cell 8) after it has resolved the handle of \<open>my_function\<close> (cell 7).
\<close>

lemma ex_remo_func_two_rounds:
  "\<not> one_pass (calls (ray (snd (run (ex_remo_func recorded)))))"
  by (simp add: func_ok recorded_def one_pass_def List.map_filter_simps)

text \<open>
  Claim C4, as stated, says of every notebook session that the connection is released as
  the final step. It fails on the run of ex_remo_func in which the worker of the first
  task dies: \<open>ray.get(obj_ref)\<close> in cell 7 raises, the run ends there, \<open>ray.shutdown\<close> is
  never called and the session stays connected.
\<close>

theorem teardown_skipped_counterexample:
  "fst (run (ex_remo_func (worker_dies 0))) = Inl (Remote_failure Worker_died) \<and>
   \<not> released_at_the_end (snd (run (ex_remo_func (worker_dies 0)))) \<and>
   connected (ray (snd (run (ex_remo_func (worker_dies 0)))))"
proof -
  have "fails (worker_dies 0) 0 = Some Worker_died"
    by (simp add: worker_dies_def)
  then show ?thesis
    by (simp add: func_fail0 released_at_the_end_def)
qed

text \<open>
  Claim C4, amended. Every notebook session in which no remote computation fails (for
  the JobLib notebook: in which no library call raises) follows the lifecycle order
  bootstrap, then definition, then invocation, then resolution, then teardown, the
  middle three for each task in turn: \<open>ray.init\<close> is the first framework call and the
  dashboard endpoint is reported next, before any submission or resolution; every remote
  function or class is defined before it is invoked and every handle is submitted before
  it is resolved; and \<open>ray.shutdown\<close> is the last framework call, after every
  resolution, and leaves the session disconnected. A session of ex_remo_func or
  ex_remo_meth that a remote failure ends follows the same order up to the failing
  resolution and stays connected: \<open>ray.shutdown\<close> is never called.
\<close>

theorem lifecycle_of_the_runs:
  "lifecycle [] (calls (ray (snd (run (ex_remo_func e))))) \<and>
   lifecycle [] (calls (ray (snd (run (ex_remo_meth e))))) \<and>
   lifecycle [] (calls (ray (snd (run (ex_joblib e))))) \<and>
   take 2 (calls (ray (snd (run (ex_remo_func e))))) = [Ray_init True, Ray_get_dashboard_url] \<and>
   take 2 (calls (ray (snd (run (ex_remo_meth e))))) = [Ray_init True, Ray_get_dashboard_url] \<and>
   take 2 (calls (ray (snd (run (ex_joblib e))))) = [Ray_init True, Ray_get_dashboard_url] \<and>
   ((\<forall>h. fails e h = None) \<longrightarrow>
      released_at_the_end (snd (run (ex_remo_func e))) \<and>
      released_at_the_end (snd (run (ex_remo_meth e)))) \<and>
   ((\<forall>w. raised e w = None) \<longrightarrow> released_at_the_end (snd (run (ex_joblib e)))) \<and>
   (fst (run (ex_remo_func e')) \<noteq> Inr () \<longrightarrow>
      connected (ray (snd (run (ex_remo_func e')))) \<and>
      Ray_shutdown \<notin> set (calls (ray (snd (run (ex_remo_func e')))))) \<and>
   (fst (run (ex_remo_meth e')) \<noteq> Inr () \<longrightarrow>
      connected (ray (snd (run (ex_remo_meth e')))) \<and>
      Ray_shutdown \<notin> set (calls (ray (snd (run (ex_remo_meth e'))))))"
proof (intro conjI impI)
  assume "\<forall>h. fails e h = None"
  then show "released_at_the_end (snd (run (ex_remo_func e)))"
    "released_at_the_end (snd (run (ex_remo_meth e)))"
    by (simp_all add: released_at_the_end_def func_ok meth_ok)
next
  assume "\<forall>w. raised e w = None"
  then show "released_at_the_end (snd (run (ex_joblib e)))"
    by (simp add: released_at_the_end_def joblib_ok)
next
  assume a: "fst (run (ex_remo_func e')) \<noteq> Inr ()"
  then show "connected (ray (snd (run (ex_remo_func e'))))"
    by (cases rule: func_cases [of e'])
       (simp_all add: func_ok func_fail0 func_fail1 func_fail2 func_fail3 func_fail4)
  from a show "Ray_shutdown \<notin> set (calls (ray (snd (run (ex_remo_func e')))))"
    by (cases rule: func_cases [of e'])
       (simp_all add: func_ok func_fail0 func_fail1 func_fail2 func_fail3 func_fail4)
next
  assume a: "fst (run (ex_remo_meth e')) \<noteq> Inr ()"
  then show "connected (ray (snd (run (ex_remo_meth e'))))"
    by (cases "fails e' 0") (simp_all add: meth_ok meth_fail0)
  from a show "Ray_shutdown \<notin> set (calls (ray (snd (run (ex_remo_meth e')))))"
    by (cases "fails e' 0") (simp_all add: meth_ok meth_fail0)
qed (simp_all add: func_lifecycle meth_lifecycle joblib_any)

theorem lifecycle_of_the_runs_witness:
  "(\<forall>h. fails recorded h = None) \<and> (\<forall>w. raised recorded w = None) \<and>
   fst (run (ex_remo_func (worker_dies 2))) \<noteq> Inr () \<and>
   fst (run (ex_remo_meth (worker_dies 0))) \<noteq> Inr () \<and>
   lifecycle [] (calls (ray (snd (run (ex_remo_func recorded))))) \<and>
   take 2 (calls (ray (snd (run (ex_remo_func recorded))))) =
     [Ray_init True, Ray_get_dashboard_url] \<and>
   released_at_the_end (snd (run (ex_remo_func recorded))) \<and>
   released_at_the_end (snd (run (ex_remo_meth recorded))) \<and>
   released_at_the_end (snd (run (ex_joblib recorded))) \<and>
   connected (ray (snd (run (ex_remo_func (worker_dies 2))))) \<and>
   connected (ray (snd (run (ex_remo_meth (worker_dies 0)))))"
proof -
  have h1: "\<forall>h. fails recorded h = None" "\<forall>w. raised recorded w = None"
    by (simp_all add: recorded_def)
  have "fails (worker_dies 2) 0 = None" "fails (worker_dies 2) 1 = None"
    "fails (worker_dies 2) 2 = Some Worker_died"
    by (simp_all add: worker_dies_def recorded_def)
  then have h2: "fst (run (ex_remo_func (worker_dies 2))) \<noteq> Inr ()"
    by (simp add: func_fail2)
  have "fails (worker_dies 0) 0 = Some Worker_died"
    by (simp add: worker_dies_def)
  then have h3: "fst (run (ex_remo_meth (worker_dies 0))) \<noteq> Inr ()"
    by (simp add: meth_fail0)
  from lifecycle_of_the_runs [of recorded "worker_dies 2"]
    lifecycle_of_the_runs [of recorded "worker_dies 0"] h1 h2 h3
  show ?thesis by simp
qed

section \<open>Remote failures\<close>



section \<open>The framework calls of the notebooks\<close>

text \<open>
  Claim C7, as stated (every call the notebooks make into the framework is a submit or a
  resolve): it fails already on the first call of ex_remo_func, \<open>ray.init\<close>.
\<close>

theorem submit_or_resolve_counterexample:
  "\<not> list_all submit_or_resolve (calls (ray (snd (run (ex_remo_func recorded)))))"
  by (simp add: func_ok recorded_def submit_or_resolve_def)

text \<open>
  Claim C7, amended. The task-execution calls of the notebooks are the two consumed
  contracts, submit (\<open>.remote()\<close>) and resolve (\<open>ray.get\<close>); besides them the notebooks call
  the framework to bootstrap the session (\<open>ray.init\<close>, \<open>ray.get_dashboard_url\<close>), to mark
  the remote definitions (\<open>ray.remote\<close>), to register and select the joblib backend
  (\<open>register_ray\<close>, \<open>joblib.parallel_backend("ray")\<close>) and to tear the session down
  (\<open>ray.shutdown\<close>), and make no other call. The JobLib notebook itself makes no submit
  and no resolve, in any run. (The logs are those of the complete runs: no remote
  computation fails and, in the JobLib notebook, no library call raises.)
\<close>

theorem framework_calls_of_the_notebooks:
  "((\<forall>h. fails e h = None) \<longrightarrow>
     filter submit_or_resolve (calls (ray (snd (run (ex_remo_func e))))) =
       [Submit ''my_function'' 0, Resolve 0,
        Submit ''slow_function'' 1, Submit ''slow_function'' 2, Submit ''slow_function'' 3,
        Submit ''slow_function'' 4, Resolve 1, Resolve 2, Resolve 3, Resolve 4] \<and>
     filter (\<lambda>c. \<not> submit_or_resolve c) (calls (ray (snd (run (ex_remo_func e))))) =
       [Ray_init True, Ray_get_dashboard_url, Ray_remote ''my_function'',
        Ray_remote ''slow_function'', Ray_shutdown] \<and>
     filter submit_or_resolve (calls (ray (snd (run (ex_remo_meth e))))) =
       [Actor_create ''Counter'' 0, Submit_method 0 ''increment'' 0, Resolve 0] \<and>
     filter (\<lambda>c. \<not> submit_or_resolve c) (calls (ray (snd (run (ex_remo_meth e))))) =
       [Ray_init True, Ray_get_dashboard_url, Ray_remote ''Counter'', Ray_shutdown]) \<and>
   filter submit_or_resolve (calls (ray (snd (run (ex_joblib e))))) = [] \<and>
   ((\<forall>w. raised e w = None) \<longrightarrow>
     filter (\<lambda>c. \<not> submit_or_resolve c) (calls (ray (snd (run (ex_joblib e))))) =
       [Ray_init True, Ray_get_dashboard_url, Register_ray, Parallel_backend ''ray'',
        Ray_shutdown])"
  by (simp add: func_ok meth_ok joblib_ok joblib_any submit_or_resolve_def)

theorem framework_calls_of_the_notebooks_witness:
  "(\<forall>h. fails recorded h = None) \<and> (\<forall>w. raised recorded w = None) \<and>
   filter (\<lambda>c. \<not> submit_or_resolve c) (calls (ray (snd (run (ex_remo_func recorded))))) =
     [Ray_init True, Ray_get_dashboard_url, Ray_remote ''my_function'',
      Ray_remote ''slow_function'', Ray_shutdown] \<and>
   filter submit_or_resolve (calls (ray (snd (run (ex_remo_meth recorded))))) =
     [Actor_create ''Counter'' 0, Submit_method 0 ''increment'' 0, Resolve 0] \<and>
   filter (\<lambda>c. \<not> submit_or_resolve c) (calls (ray (snd (run (ex_joblib recorded))))) =
     [Ray_init True, Ray_get_dashboard_url, Register_ray, Parallel_backend ''ray'',
      Ray_shutdown]"
proof -
  have "\<forall>h. fails recorded h = None" "\<forall>w. raised recorded w = None"
    by (simp_all add: recorded_def)
  with framework_calls_of_the_notebooks [of recorded] show ?thesis
    by simp
qed

section \<open>Repeated bootstrap\<close>



text \<open>Without the keyword the second \<open>ray.init\<close> does raise: the guard is real.\<close>

lemma reinit_without_keyword_raises:
  "connected s \<Longrightarrow> fst (ray_init False s) = Inl Reinit_error"
  by (simp add: ray_init_def)

end
